theory Spec2Isabelle
  imports Complex_Main "HOL-Library.Word"
begin

section \<open>JavaScript values\<close>

text \<open>
  A JavaScript string is a sequence of 16-bit code units. An absent value
  (\<^verbatim>\<open>undefined\<close> or \<^verbatim>\<open>null\<close>) is \<open>None\<close>.
\<close>

type_synonym code_unit = "16 word"
type_synonym jsstring = "code_unit list"

definition js :: "string \<Rightarrow> jsstring" where
  "js s = map (\<lambda>c. of_nat (of_char c)) s"

text \<open>Truthiness of an optional string: absent and the empty string are falsy.\<close>

definition truthy :: "jsstring option \<Rightarrow> bool" where
  "truthy x = (case x of None \<Rightarrow> False | Some s \<Rightarrow> s \<noteq> [])"

text \<open>The string behind a value already tested truthy.\<close>

definition the_string :: "jsstring option \<Rightarrow> jsstring" where
  "the_string x = (case x of None \<Rightarrow> [] | Some s \<Rightarrow> s)"

text \<open>
  \<^verbatim>\<open>String.prototype.trim\<close> strips the WhiteSpace and LineTerminator code points
  of ECMAScript from both ends.
\<close>

definition isWhiteSpace :: "code_unit \<Rightarrow> bool" where
  "isWhiteSpace c =
     ((0x0009 \<le> c \<and> c \<le> 0x000D) \<or> c = 0x0020 \<or> c = 0x00A0 \<or> c = 0x1680 \<or>
      (0x2000 \<le> c \<and> c \<le> 0x200A) \<or> c = 0x2028 \<or> c = 0x2029 \<or> c = 0x202F \<or>
      c = 0x205F \<or> c = 0x3000 \<or> c = 0xFEFF)"

definition trim :: "jsstring \<Rightarrow> jsstring" where
  "trim s = rev (dropWhile isWhiteSpace (rev (dropWhile isWhiteSpace s)))"

section \<open>Identifiers\<close>

text \<open>
  An ObjectId is kept in the form its \<^verbatim>\<open>toString()\<close> gives: 24 lower-case
  hexadecimal digits. \<open>isValidObjectId\<close> accepts a string of 24 hexadecimal digits,
  and casting it to an ObjectId folds the letters to lower case. Other forms that a
  version of the library may accept (a string of 12 bytes) are not modelled.
\<close>

type_synonym oid = jsstring

definition isHexDigit :: "code_unit \<Rightarrow> bool" where
  "isHexDigit c =
     ((0x30 \<le> c \<and> c \<le> 0x39) \<or> (0x41 \<le> c \<and> c \<le> 0x46) \<or> (0x61 \<le> c \<and> c \<le> 0x66))"

definition isValidObjectId :: "jsstring \<Rightarrow> bool" where
  "isValidObjectId s = (length s = 24 \<and> list_all isHexDigit s)"

definition ObjectId :: "jsstring \<Rightarrow> oid" where
  "ObjectId s = map (\<lambda>c. if 0x41 \<le> c \<and> c \<le> 0x46 then c + 0x20 else c) s"

section \<open>Errors and responses\<close>

text \<open>
  A handler either throws or answers. \<open>ApiError\<close> carries the status code and the
  message of the source; \<open>TypeError\<close> is the runtime's error on reading a property
  of \<^verbatim>\<open>null\<close> or \<^verbatim>\<open>undefined\<close>; \<open>ValidationError\<close> is the Document Store
  refusing a document its schema does not admit. A thrown error keeps the changes made
  before it.
\<close>

datatype error = ApiError nat string | TypeError | ValidationError

datatype 'a response = ApiResponse nat 'a string

section \<open>Documents\<close>

text \<open>
  Modelled from the spec: the Video and User documents, whose schemas
  (models/video.model.js, models/user.model.js) are not among the sources. The fields
  are those of the spec's data model, as the controllers read and write them. A field
  the source can write \<^verbatim>\<open>undefined\<close> into is optional.
\<close>

record media =
  url :: "jsstring option"
  public_id :: jsstring

record video =
  video_id :: oid
  title :: "jsstring option"
  description :: "jsstring option"
  duration :: real
  videoFile :: media
  thumbnail :: media
  owner :: "oid option"
  views :: nat
  isPublished :: bool
  createdAt :: int

record user =
  user_id :: oid
  username :: jsstring
  avatar :: jsstring
  watchHistory :: "oid list"

text \<open>
  Modelled from the spec: the Like and Subscription documents, whose schemas are not
  among the sources. A Like is a reference pair (video identifier, liking-user
  identifier), a Subscription a reference pair (channel identifier, subscriber
  identifier).
\<close>

record like =
  like_video :: oid
  likedBy :: oid

record subscription =
  channel :: oid
  subscriber :: oid

section \<open>The stores\<close>

text \<open>
  Every mutating call issued to the Document Store or to the Asset Store is recorded,
  in order, in \<open>events\<close>.
\<close>

datatype event =
    Upload jsstring
  | AssetDelete jsstring
  | VideoCreate oid
  | VideoUpdate oid
  | VideoDelete oid
  | UserSave oid
  | UsersPull oid

record world =
  videos :: "video list"
  users :: "user list"
  likes :: "like list"
  subscriptions :: "subscription list"
  assets :: "jsstring list"
  events :: "event list"

text \<open>What an upload answers: the asset's URL, its store identifier and its duration.\<close>

record upload_result =
  res_url :: jsstring
  res_public_id :: jsstring
  res_duration :: real

text \<open>
  What the handlers take from outside: the answer of the Asset Store to an upload
  (none when the upload fails), given the calls made so far and the local path; the
  full-text search index; the order the Document Store gives a \<^verbatim>\<open>$sort\<close> by a field
  other than the numeric ones of a Video, given the field's name and whether the
  direction is ascending; the schema validation of a new Video; the identifier and the
  time stamp a new record gets.
\<close>

record env =
  cloud_upload :: "event list \<Rightarrow> jsstring \<Rightarrow> upload_result option"
  atlas_search :: "jsstring \<Rightarrow> video list \<Rightarrow> video list"
  store_sort :: "jsstring \<Rightarrow> bool \<Rightarrow> video list \<Rightarrow> video list"
  schema_valid :: "video \<Rightarrow> bool"
  fresh_id :: oid
  now :: int

subsection \<open>Asset Store\<close>

text \<open>
  Modelled from the spec: \<^verbatim>\<open>uploadOnCloudinary\<close> and \<^verbatim>\<open>deleteFromCloudinary\<close> of
  utils/cloudinary.js, which is not among the sources. The Asset Store supports
  \<^verbatim>\<open>upload(localPath) -> {url, id, duration?}\<close> and \<^verbatim>\<open>delete(id) -> ok\<close>; a failed
  upload answers nothing and stores nothing.
\<close>

definition uploadOnCloudinary ::
  "env \<Rightarrow> jsstring \<Rightarrow> world \<Rightarrow> upload_result option \<times> world" where
  "uploadOnCloudinary e localFilePath w =
     (case cloud_upload e (events w) localFilePath of
        None \<Rightarrow> (None, w)
      | Some r \<Rightarrow>
          (Some r, w\<lparr>assets := assets w @ [res_public_id r],
                      events := events w @ [Upload localFilePath]\<rparr>))"

definition deleteFromCloudinary :: "jsstring \<Rightarrow> world \<Rightarrow> world" where
  "deleteFromCloudinary pid w =
     w\<lparr>assets := removeAll pid (assets w), events := events w @ [AssetDelete pid]\<rparr>"

subsection \<open>Document Store\<close>

definition Video_findById :: "oid \<Rightarrow> world \<Rightarrow> video option" where
  "Video_findById i w = find (\<lambda>v. video_id v = i) (videos w)"

definition User_findById :: "oid option \<Rightarrow> world \<Rightarrow> user option" where
  "User_findById i w =
     (case i of None \<Rightarrow> None | Some u \<Rightarrow> find (\<lambda>d. user_id d = u) (users w))"

text \<open>An update or a deletion by identifier acts on the first document that matches.\<close>

fun update_first :: "('a \<Rightarrow> bool) \<Rightarrow> ('a \<Rightarrow> 'a) \<Rightarrow> 'a list \<Rightarrow> 'a list" where
  "update_first p f [] = []"
| "update_first p f (x # xs) = (if p x then f x # xs else x # update_first p f xs)"

fun delete_first :: "('a \<Rightarrow> bool) \<Rightarrow> 'a list \<Rightarrow> 'a list" where
  "delete_first p [] = []"
| "delete_first p (x # xs) = (if p x then xs else x # delete_first p xs)"

text \<open>\<^verbatim>\<open>findByIdAndUpdate(id, update, {new: true})\<close>: the updated document, or none.\<close>

definition Video_findByIdAndUpdate ::
  "oid \<Rightarrow> (video \<Rightarrow> video) \<Rightarrow> world \<Rightarrow> video option \<times> world" where
  "Video_findByIdAndUpdate i f w =
     (let w' = w\<lparr>videos := update_first (\<lambda>v. video_id v = i) f (videos w),
                 events := events w @ [VideoUpdate i]\<rparr>
      in (Video_findById i w', w'))"

text \<open>\<^verbatim>\<open>findByIdAndDelete(id)\<close>: the deleted document, or none.\<close>

definition Video_findByIdAndDelete :: "oid \<Rightarrow> world \<Rightarrow> video option \<times> world" where
  "Video_findByIdAndDelete i w =
     (Video_findById i w,
      w\<lparr>videos := delete_first (\<lambda>v. video_id v = i) (videos w),
        events := events w @ [VideoDelete i]\<rparr>)"

text \<open>
  \<^verbatim>\<open>Video.create(doc)\<close>: the schema validates the document, then it is stored.
\<close>

definition Video_create :: "env \<Rightarrow> video \<Rightarrow> world \<Rightarrow> (error + video) \<times> world" where
  "Video_create e doc w =
     (if schema_valid e doc
      then (Inr doc, w\<lparr>videos := videos w @ [doc],
                         events := events w @ [VideoCreate (video_id doc)]\<rparr>)
      else (Inl ValidationError, w))"

text \<open>
  \<^verbatim>\<open>user.save()\<close> after \<^verbatim>\<open>select('watchHistory')\<close>: writes the watch-history of the
  loaded user back.
\<close>

definition User_save :: "user \<Rightarrow> world \<Rightarrow> world" where
  "User_save u w =
     w\<lparr>users := update_first (\<lambda>d. user_id d = user_id u)
                   (\<lambda>d. d\<lparr>watchHistory := watchHistory u\<rparr>) (users w),
       events := events w @ [UserSave (user_id u)]\<rparr>"

text \<open>
  \<^verbatim>\<open>User.updateMany({watchHistory: {$in: [id]}}, {$pull: {watchHistory: id}})\<close>.
\<close>

definition User_pull_watchHistory :: "oid \<Rightarrow> world \<Rightarrow> world" where
  "User_pull_watchHistory i w =
     w\<lparr>users := map (\<lambda>u. if i \<in> set (watchHistory u)
                          then u\<lparr>watchHistory := removeAll i (watchHistory u)\<rparr> else u)
                   (users w),
       events := events w @ [UsersPull i]\<rparr>"

text \<open>
  The ownership test \<^verbatim>\<open>currentVideo?.owner.toString() != req.user?._id\<close>. The left
  side is \<^verbatim>\<open>undefined\<close> when there is no video, and reading \<^verbatim>\<open>toString\<close> of an absent
  owner throws; the right side is \<^verbatim>\<open>undefined\<close> when there is no caller. The loose
  comparison holds \<^verbatim>\<open>undefined\<close> equal to \<^verbatim>\<open>undefined\<close> only, and compares an
  ObjectId with a string through its \<^verbatim>\<open>toString()\<close>.
\<close>

definition not_owner :: "video option \<Rightarrow> oid option \<Rightarrow> error + bool" where
  "not_owner currentVideo caller =
     (case currentVideo of
        None \<Rightarrow> Inr (caller \<noteq> None)
      | Some cv \<Rightarrow>
          (case owner cv of
             None \<Rightarrow> Inl TypeError
           | Some ow \<Rightarrow> Inr (Some ow \<noteq> caller)))"

section \<open>Feed listing\<close>

text \<open>
  The stage \<^verbatim>\<open>$sort: {[sortBy]: sortType === "asc" ? 1 : -1}\<close> sorts by whatever field
  \<open>sortBy\<close> names. The source's comment names views, createdAt and duration, the
  numeric fields of a Video: by these the order is that of the numbers. By a field of
  any other name the order is the Document Store's, taken from the environment.
\<close>

definition numeric_field :: "jsstring \<Rightarrow> (video \<Rightarrow> real) option" where
  "numeric_field f =
     (if f = js ''views'' then Some (\<lambda>v. real (views v))
      else if f = js ''createdAt'' then Some (\<lambda>v. real_of_int (createdAt v))
      else if f = js ''duration'' then Some duration
      else None)"

definition sort_stage :: "env \<Rightarrow> jsstring \<Rightarrow> bool \<Rightarrow> video list \<Rightarrow> video list" where
  "sort_stage e f asc vs =
     (case numeric_field f of
        None \<Rightarrow> store_sort e f asc vs
      | Some k \<Rightarrow> if asc then sort_key k vs else sort_key (\<lambda>v. - k v) vs)"

text \<open>
  The \<^verbatim>\<open>$lookup\<close> of the owner, projected to its identifier and username (the avatar
  of a user is a string, which has no \<^verbatim>\<open>url\<close> inside), followed by \<^verbatim>\<open>$unwind\<close>: one
  document for each owner found, none when there is no such user.
\<close>

record owner_details =
  od_id :: oid
  od_username :: jsstring

definition lookup_ownerDetails :: "user list \<Rightarrow> video \<Rightarrow> (video \<times> owner_details) list" where
  "lookup_ownerDetails us v =
     map (\<lambda>u. (v, \<lparr>od_id = user_id u, od_username = username u\<rparr>))
       (filter (\<lambda>u. Some (user_id u) = owner v) us)"

record 'a page_result =
  docs :: "'a list"
  totalDocs :: nat
  limit_of :: nat
  page_of :: nat

text \<open>
  The paginated execution of the pipeline by the pagination plugin, given the numbers
  \<^verbatim>\<open>parseInt(page, 10)\<close> and \<^verbatim>\<open>parseInt(limit, 10)\<close> (none for \<^verbatim>\<open>NaN\<close>). Following
  the spec, page is a positive integer that defaults to 1 and limit a positive integer
  that defaults to 10. The plugin takes the absolute value of the page, and 1 for a
  page of 0; a limit that is not positive is taken as the default. The page is the
  slice of \<open>limit\<close> documents after the earlier pages.
\<close>

definition aggregatePaginate :: "'a list \<Rightarrow> int option \<Rightarrow> int option \<Rightarrow> 'a page_result" where
  "aggregatePaginate xs page limit =
     (let p = (case page of None \<Rightarrow> 1 | Some n \<Rightarrow> if n = 0 then 1 else nat \<bar>n\<bar>);
          l = (case limit of None \<Rightarrow> 10 | Some n \<Rightarrow> if 0 < n then nat n else 10)
      in \<lparr>docs = take l (drop ((p - 1) * l) xs), totalDocs = length xs,
          limit_of = l, page_of = p\<rparr>)"

definition getAllVideos ::
  "env \<Rightarrow> int option \<Rightarrow> int option \<Rightarrow> jsstring option \<Rightarrow> jsstring option \<Rightarrow>
   jsstring option \<Rightarrow> jsstring option \<Rightarrow> world \<Rightarrow>
   error + (video \<times> owner_details) page_result response" where
  "getAllVideos e page limit query sortBy sortType userId w =
     (let s1 = (case query of
                  None \<Rightarrow> videos w
                | Some q \<Rightarrow> if q \<noteq> [] then atlas_search e q (videos w) else videos w)
      in if truthy userId \<and> \<not> isValidObjectId (the_string userId)
         then Inl (ApiError 400 ''Invalid User Id'')
         else
           let s2 = (case userId of
                       None \<Rightarrow> s1
                     | Some u \<Rightarrow>
                         if u \<noteq> [] then filter (\<lambda>v. owner v = Some (ObjectId u)) s1 else s1);
               s3 = filter isPublished s2;
               s4 = (case (sortBy, sortType) of
                       (Some sb, Some st) \<Rightarrow>
                         if sb \<noteq> [] \<and> st \<noteq> [] then sort_stage e sb (st = js ''asc'') s3
                         else sort_key (\<lambda>v. - createdAt v) s3
                     | _ \<Rightarrow> sort_key (\<lambda>v. - createdAt v) s3);
               s5 = concat (map (lookup_ownerDetails (users w)) s4)
           in Inr (ApiResponse 200 (aggregatePaginate s5 page limit)
                 ''Videos fetched successfully''))"

section \<open>Publish a video\<close>

text \<open>The test \<^verbatim>\<open>field?.trim() === ""\<close>: an absent field is not blank.\<close>

definition blank :: "jsstring option \<Rightarrow> bool" where
  "blank field = (case field of None \<Rightarrow> False | Some s \<Rightarrow> trim s = [])"

text \<open>
  The uploaded files of a request, by field name: the local paths of the files of each
  field, when the field is there.
\<close>

record req_files =
  files_videoFile :: "jsstring list option"
  files_thumbnail :: "jsstring list option"

text \<open>
  \<^verbatim>\<open>req.files?.field[0].path\<close>: \<^verbatim>\<open>undefined\<close> without files; a TypeError when the field
  is missing or empty.
\<close>

definition first_path ::
  "req_files option \<Rightarrow> (req_files \<Rightarrow> jsstring list option) \<Rightarrow> error + jsstring option" where
  "first_path files field =
     (case files of
        None \<Rightarrow> Inr None
      | Some fs \<Rightarrow>
          (case field fs of
             None \<Rightarrow> Inl TypeError
           | Some [] \<Rightarrow> Inl TypeError
           | Some (p # ps) \<Rightarrow> Inr (Some p)))"

text \<open>
  Following the spec, a created record starts with no views; its identifier and its
  creation time are the environment's.
\<close>

definition publishAVideo ::
  "env \<Rightarrow> oid option \<Rightarrow> jsstring option \<Rightarrow> jsstring option \<Rightarrow> req_files option \<Rightarrow>
   world \<Rightarrow> (error + video response) \<times> world" where
  "publishAVideo e caller ttl descr files w =
     (if blank ttl \<or> blank descr then (Inl (ApiError 400 ''All fields are required''), w)
      else
     (case first_path files files_videoFile of
        Inl err \<Rightarrow> (Inl err, w)
      | Inr videoFileLocalPath \<Rightarrow>
     (case first_path files files_thumbnail of
        Inl err \<Rightarrow> (Inl err, w)
      | Inr thumbnailLocalPath \<Rightarrow>
      if \<not> truthy videoFileLocalPath
      then (Inl (ApiError 400 ''videoFileLocalPath is required''), w)
      else if \<not> truthy thumbnailLocalPath
      then (Inl (ApiError 400 ''thumbnailLocalPath is required''), w)
      else
     (case uploadOnCloudinary e (the_string videoFileLocalPath) w of
        (videoFile_res, w1) \<Rightarrow>
     (case uploadOnCloudinary e (the_string thumbnailLocalPath) w1 of
        (thumbnail_res, w2) \<Rightarrow>
     (case videoFile_res of
        None \<Rightarrow> (Inl (ApiError 400 ''Video file not found''), w2)
      | Some vf \<Rightarrow>
     (case thumbnail_res of
        None \<Rightarrow> (Inl (ApiError 400 ''Thumbnail not found''), w2)
      | Some th \<Rightarrow>
     (case Video_create e
             \<lparr>video_id = fresh_id e, title = ttl, description = descr,
              duration = res_duration vf,
              videoFile = \<lparr>url = Some (res_url vf), public_id = res_public_id vf\<rparr>,
              thumbnail = \<lparr>url = Some (res_url th), public_id = res_public_id th\<rparr>,
              owner = caller, views = 0, isPublished = True, createdAt = now e\<rparr> w2 of
        (Inl err, w3) \<Rightarrow> (Inl err, w3)
      | (Inr vd, w3) \<Rightarrow>
     (case Video_findById (video_id vd) w3 of
        None \<Rightarrow> (Inl (ApiError 401 ''Something wrong while Adding a video''), w3)
      | Some createdVideo \<Rightarrow>
          (Inr (ApiResponse 200 createdVideo ''Video Published Successfully''), w3))))))))))"

section \<open>Get a video by identifier\<close>

text \<open>
  The aggregation: the video joined with its likes and with its owner, the owner joined
  with the subscriptions to that channel. \<^verbatim>\<open>$in: [req.user?._id, "$likes.likedBy"]\<close>
  tests whether the caller's identifier, \<^verbatim>\<open>null\<close> for an absent caller, is among the
  identifiers of the joined documents. \<^verbatim>\<open>$first\<close> of an empty owner array is absent.
\<close>

record owner_view =
  ov_id :: oid
  ov_username :: jsstring
  ov_avatar :: jsstring
  subscribersCount :: nat
  isSubscribed :: bool

record video_view =
  vv_id :: oid
  vv_videoFile :: media
  vv_title :: "jsstring option"
  vv_description :: "jsstring option"
  vv_views :: nat
  vv_createdAt :: int
  vv_isPublished :: bool
  vv_duration :: real
  vv_owner :: "owner_view option"
  likesCount :: nat
  isLiked :: bool

definition lookup_owner :: "oid option \<Rightarrow> world \<Rightarrow> video \<Rightarrow> owner_view list" where
  "lookup_owner caller w v =
     map (\<lambda>u.
       let subscribers = filter (\<lambda>s. channel s = user_id u) (subscriptions w)
       in \<lparr>ov_id = user_id u, ov_username = username u, ov_avatar = avatar u,
           subscribersCount = length subscribers,
           isSubscribed = (caller \<in> set (map (\<lambda>s. Some (subscriber s)) subscribers))\<rparr>)
       (filter (\<lambda>u. Some (user_id u) = owner v) (users w))"

definition video_aggregate :: "oid option \<Rightarrow> oid \<Rightarrow> world \<Rightarrow> video_view list" where
  "video_aggregate caller i w =
     map (\<lambda>v.
       let likes_of = filter (\<lambda>l. like_video l = video_id v) (likes w);
           owners = lookup_owner caller w v
       in \<lparr>vv_id = video_id v, vv_videoFile = videoFile v, vv_title = title v,
           vv_description = description v, vv_views = views v,
           vv_createdAt = createdAt v, vv_isPublished = isPublished v,
           vv_duration = duration v,
           vv_owner = (case owners of [] \<Rightarrow> None | x # xs \<Rightarrow> Some x),
           likesCount = length likes_of,
           isLiked = (caller \<in> set (map (\<lambda>l. Some (likedBy l)) likes_of))\<rparr>)
       (filter (\<lambda>v. video_id v = i) (videos w))"

text \<open>The truthiness of an array: every array, the empty one too, is truthy.\<close>

definition array_truthy :: "'a list \<Rightarrow> bool" where
  "array_truthy xs = True"

definition getVideoById ::
  "oid option \<Rightarrow> jsstring \<Rightarrow> world \<Rightarrow>
   (error + (video_view list \<times> oid list) response) \<times> world" where
  "getVideoById caller videoId w =
     (if \<not> isValidObjectId videoId then (Inl (ApiError 400 ''Invalid Video Id''), w)
      else
        let vd = video_aggregate caller (ObjectId videoId) w
        in if \<not> array_truthy vd then (Inl (ApiError 404 ''No video found''), w)
           else
             let w1 = snd (Video_findByIdAndUpdate (ObjectId videoId)
                             (\<lambda>v. v\<lparr>views := views v + 1\<rparr>) w)
             in (case User_findById caller w1 of
                   None \<Rightarrow> (Inl TypeError, w1)
                 | Some u \<Rightarrow>
                     let u' = u\<lparr>watchHistory := watchHistory u @ [ObjectId videoId]\<rparr>
                     in (Inr (ApiResponse 200 (vd, watchHistory u')
                           ''Video Fetched successfully''),
                         User_save u' w1)))"

section \<open>Update a video\<close>

text \<open>
  The update \<^verbatim>\<open>$set: {title, description, thumbnail: {public_id, url}}\<close>. A key whose
  value is \<^verbatim>\<open>undefined\<close> is left out of a \<^verbatim>\<open>$set\<close> (Mongoose 6 and later strip such
  keys from an update), so an absent title or description leaves the stored one; the
  thumbnail is replaced as a whole by the object the handler builds. Without a new
  thumbnail that object has the stored \<^verbatim>\<open>public_id\<close> and the \<^verbatim>\<open>url\<close> of
  \<^verbatim>\<open>oldImageUrl\<close>, a variable assigned only in the other branch.
\<close>

definition set_fields ::
  "jsstring option \<Rightarrow> jsstring option \<Rightarrow> media \<Rightarrow> video \<Rightarrow> video" where
  "set_fields ttl descr th v =
     v\<lparr>title := (case ttl of None \<Rightarrow> title v | Some t \<Rightarrow> Some t),
       description := (case descr of None \<Rightarrow> description v | Some d \<Rightarrow> Some d),
       thumbnail := th\<rparr>"

definition write_video ::
  "oid \<Rightarrow> jsstring option \<Rightarrow> jsstring option \<Rightarrow> media \<Rightarrow> world \<Rightarrow>
   (error + video response) \<times> world" where
  "write_video i ttl descr th w =
     (case Video_findByIdAndUpdate i (set_fields ttl descr th) w of
        (None, w') \<Rightarrow> (Inl (ApiError 500 ''Failed to update video please try again''), w')
      | (Some updatedVideo, w') \<Rightarrow>
          (Inr (ApiResponse 200 updatedVideo ''Video content updated successfully''), w'))"

definition updateVideo ::
  "env \<Rightarrow> oid option \<Rightarrow> jsstring \<Rightarrow> jsstring option \<Rightarrow> jsstring option \<Rightarrow>
   jsstring option \<Rightarrow> world \<Rightarrow> (error + video response) \<times> world" where
  "updateVideo e caller videoId ttl descr thumbnailLocalPath w =
     (if \<not> isValidObjectId videoId then (Inl (ApiError 400 ''Invalid video Id''), w)
      else
        let currentVideo = Video_findById (ObjectId videoId) w
        in (case not_owner currentVideo caller of
              Inl err \<Rightarrow> (Inl err, w)
            | Inr True \<Rightarrow> (Inl (ApiError 400 ''Only Owners can edit video''), w)
            | Inr False \<Rightarrow>
                if \<not> truthy ttl \<and> \<not> truthy descr \<and> \<not> truthy thumbnailLocalPath
                then (Inl (ApiError 400 ''Atleast one field should be passed to update''), w)
                else if truthy thumbnailLocalPath
                then
                  (case Video_findById (ObjectId videoId) w of
                     None \<Rightarrow> (Inl TypeError, w)
                   | Some vd \<Rightarrow>
                       (case uploadOnCloudinary e (the_string thumbnailLocalPath) w of
                          (None, w1) \<Rightarrow>
                            (Inl (ApiError 401 ''Error while uploading thumbnail''), w1)
                        | (Some th, w1) \<Rightarrow>
                            write_video (ObjectId videoId) ttl descr
                              \<lparr>url = Some (res_url th), public_id = res_public_id th\<rparr>
                              (deleteFromCloudinary (public_id (thumbnail vd)) w1)))
                else
                  (case currentVideo of
                     None \<Rightarrow> (Inl TypeError, w)
                   | Some cv \<Rightarrow>
                       write_video (ObjectId videoId) ttl descr
                         \<lparr>url = None, public_id = public_id (thumbnail cv)\<rparr> w)))"

section \<open>Delete a video\<close>

definition deleteVideo ::
  "oid option \<Rightarrow> jsstring \<Rightarrow> world \<Rightarrow> (error + video response) \<times> world" where
  "deleteVideo caller videoId w =
     (if \<not> isValidObjectId videoId then (Inl (ApiError 400 ''Invalid videoId''), w)
      else
        (case not_owner (Video_findById (ObjectId videoId) w) caller of
           Inl err \<Rightarrow> (Inl err, w)
         | Inr True \<Rightarrow>
             (Inl (ApiError 400
                ''You can't delete video as you are not owner of this video''), w)
         | Inr False \<Rightarrow>
             (case Video_findByIdAndDelete (ObjectId videoId)
                     (User_pull_watchHistory (ObjectId videoId) w) of
                (None, w2) \<Rightarrow>
                  (Inl (ApiError 400 ''Failed to delete video please try again''), w2)
              | (Some deletedVideo, w2) \<Rightarrow>
                  (Inr (ApiResponse 200 deletedVideo ''Video Deleted successfully''),
                   deleteFromCloudinary (public_id (thumbnail deletedVideo))
                     (deleteFromCloudinary (public_id (videoFile deletedVideo)) w2)))))"

section \<open>Toggle the publish status\<close>

definition togglePublishStatus ::
  "oid option \<Rightarrow> jsstring \<Rightarrow> world \<Rightarrow> (error + bool response) \<times> world" where
  "togglePublishStatus caller videoId w =
     (if \<not> isValidObjectId videoId then (Inl (ApiError 400 ''Invalid videoId''), w)
      else
        (case Video_findById (ObjectId videoId) w of
           None \<Rightarrow> (Inl (ApiError 401 ''Video not found''), w)
         | Some currentVideo \<Rightarrow>
             (case not_owner (Some currentVideo) caller of
                Inl err \<Rightarrow> (Inl err, w)
              | Inr True \<Rightarrow>
                  (Inl (ApiError 400
                     ''You can't toggle publish status as you are not owner of this video''),
                   w)
              | Inr False \<Rightarrow>
                  (case Video_findByIdAndUpdate (ObjectId videoId)
                          (\<lambda>v. v\<lparr>isPublished := \<not> isPublished currentVideo\<rparr>) w of
                     (None, w') \<Rightarrow> (Inl TypeError, w')
                   | (Some toggleVideoStatus, w') \<Rightarrow>
                       (Inr (ApiResponse 200 (isPublished toggleVideoStatus)
                          ''Video Status toggled successfully''), w')))))"

section \<open>N sequential fetches\<close>

text \<open>The store after \<open>n\<close> calls of \<open>getVideoById\<close> in a row by one caller.\<close>

fun fetch_times :: "nat \<Rightarrow> oid option \<Rightarrow> jsstring \<Rightarrow> world \<Rightarrow> world" where
  "fetch_times 0 caller videoId w = w"
| "fetch_times (Suc n) caller videoId w =
     fetch_times n caller videoId (snd (getVideoById caller videoId w))"

section \<open>Example data\<close>

text \<open>
  Two users, Alice and Bob. Alice owns one published video, \<open>clip\<close>, which Bob likes;
  Bob subscribes to Alice's channel. Bob's watch-history holds \<open>clip\<close> twice and
  \<open>ghost\<close>, an identifier of no video.
\<close>

definition alice :: oid where
  "alice = js ''0000000000000000000000a1''"

definition bob :: oid where
  "bob = js ''0000000000000000000000b2''"

definition clip :: oid where
  "clip = js ''0000000000000000000000c3''"

definition ghost :: oid where
  "ghost = js ''0000000000000000000000d4''"

definition clip_video :: video where
  "clip_video =
     \<lparr>video_id = clip, title = Some (js ''T''), description = Some (js ''D''),
      duration = 12,
      videoFile = \<lparr>url = Some (js ''cdn/v1''), public_id = js ''v1''\<rparr>,
      thumbnail = \<lparr>url = Some (js ''cdn/t1''), public_id = js ''t1''\<rparr>,
      owner = Some alice, views = 0, isPublished = True, createdAt = 100\<rparr>"

definition alice_user :: user where
  "alice_user =
     \<lparr>user_id = alice, username = js ''alice'', avatar = js ''cdn/a'', watchHistory = []\<rparr>"

definition bob_user :: user where
  "bob_user =
     \<lparr>user_id = bob, username = js ''bob'', avatar = js ''cdn/b'',
      watchHistory = [clip, ghost, clip]\<rparr>"

definition example_world :: world where
  "example_world =
     \<lparr>videos = [clip_video], users = [alice_user, bob_user],
      likes = [\<lparr>like_video = clip, likedBy = bob\<rparr>],
      subscriptions = [\<lparr>channel = alice, subscriber = bob\<rparr>],
      assets = [js ''v1'', js ''t1''], events = []\<rparr>"

text \<open>
  A feed of three videos of Alice, in the order of the collection: \<open>clip\<close>, an
  unpublished draft created later, and a published video created last.
\<close>

definition draft :: oid where
  "draft = js ''0000000000000000000000e5''"

definition late :: oid where
  "late = js ''0000000000000000000000f6''"

definition draft_video :: video where
  "draft_video = clip_video\<lparr>video_id := draft, isPublished := False, createdAt := 150\<rparr>"

definition late_video :: video where
  "late_video = clip_video\<lparr>video_id := late, createdAt := 300\<rparr>"

definition feed_world :: world where
  "feed_world = example_world\<lparr>videos := [clip_video, draft_video, late_video]\<rparr>"

definition alice_details :: owner_details where
  "alice_details = \<lparr>od_id = alice, od_username = js ''alice''\<rparr>"

text \<open>
  An environment whose uploads succeed and whose Video schema requires a title and a
  description, and one whose schema requires nothing.
\<close>

definition example_env :: env where
  "example_env =
     \<lparr>cloud_upload = (\<lambda>evs path.
        Some \<lparr>res_url = js ''cdn/'' @ path, res_public_id = js ''id/'' @ path,
              res_duration = 12\<rparr>),
      atlas_search = (\<lambda>q vs. vs),
      store_sort = (\<lambda>f asc vs. vs),
      schema_valid = (\<lambda>v. title v \<noteq> None \<and> description v \<noteq> None),
      fresh_id = late, now = 200\<rparr>"

definition lax_env :: env where
  "lax_env = example_env\<lparr>schema_valid := (\<lambda>v. True)\<rparr>"

definition two_files :: req_files where
  "two_files =
     \<lparr>files_videoFile = Some [js ''v.mp4''], files_thumbnail = Some [js ''t.png'']\<rparr>"

section \<open>Facts about the Document Store operations\<close>

lemma find_Some_holds: "find p xs = Some v \<Longrightarrow> p v"
  by (induction xs) (auto split: if_splits)

lemma find_update_first:
  "(\<And>x. p (f x) = p x) \<Longrightarrow> find p (update_first p f xs) = map_option f (find p xs)"
  by (induction xs) auto

lemma update_first_twice:
  "(\<And>x. p (f x) = p x) \<Longrightarrow>
   update_first p g (update_first p f xs) = update_first p (\<lambda>x. g (f x)) xs"
  by (induction xs) auto

lemma update_first_same:
  "find p xs = Some v \<Longrightarrow> f v = v \<Longrightarrow> update_first p f xs = xs"
  by (induction xs) (auto split: if_splits)

lemma find_delete_first_distinct:
  "distinct (map k xs) \<Longrightarrow> find (\<lambda>x. k x = i) (delete_first (\<lambda>x. k x = i) xs) = None"
  by (induction xs) (auto simp: find_None_iff image_iff)

subsection \<open>The example data\<close>

lemma ids_valid:
  "isValidObjectId alice" "isValidObjectId bob" "isValidObjectId clip" "isValidObjectId ghost"
  by (simp_all add: alice_def bob_def clip_def ghost_def js_def isValidObjectId_def
      isHexDigit_def)

lemma ids_cast:
  "ObjectId alice = alice" "ObjectId bob = bob" "ObjectId clip = clip" "ObjectId ghost = ghost"
  by (simp_all add: alice_def bob_def clip_def ghost_def js_def ObjectId_def)

lemma ids_distinct:
  "alice \<noteq> bob" "bob \<noteq> alice" "clip \<noteq> ghost" "ghost \<noteq> clip"
  "clip \<noteq> draft" "clip \<noteq> late" "draft \<noteq> late" "late \<noteq> clip"
  by (simp_all add: alice_def bob_def clip_def ghost_def draft_def late_def js_def)

lemma clip_found: "Video_findById (ObjectId clip) example_world = Some clip_video"
  by (simp add: ids_cast Video_findById_def example_world_def clip_video_def)

lemma ghost_absent: "Video_findById (ObjectId ghost) example_world = None"
  by (simp add: ids_cast ids_distinct Video_findById_def example_world_def clip_video_def)

lemma bob_found: "User_findById (Some bob) example_world = Some bob_user"
  by (simp add: User_findById_def example_world_def alice_user_def bob_user_def ids_distinct)

section \<open>Feed listing: the default feed\<close>

lemma lookup_ownerDetails_fst:
  "d \<in> set (lookup_ownerDetails us v) \<Longrightarrow> fst d = v"
  by (auto simp: lookup_ownerDetails_def)

lemma unwind_fst:
  "d \<in> set (concat (map (lookup_ownerDetails us) vs)) \<Longrightarrow> fst d \<in> set vs"
  by (auto dest: lookup_ownerDetails_fst)

lemma unwind_sorted:
  "sorted (map k vs) \<Longrightarrow>
   sorted (map (\<lambda>d. k (fst d)) (concat (map (lookup_ownerDetails us) vs)))"
proof (induction vs)
  case Nil
  then show ?case by simp
next
  case (Cons v vs)
  have same: "\<forall>d \<in> set (lookup_ownerDetails us v). k (fst d) = k v"
    by (auto dest: lookup_ownerDetails_fst)
  have later: "\<forall>d \<in> set (concat (map (lookup_ownerDetails us) vs)). k v \<le> k (fst d)"
    using Cons.prems by (auto dest!: lookup_ownerDetails_fst)
  have head: "sorted (map (\<lambda>d. k (fst d)) (lookup_ownerDetails us v))"
    using same by (simp add: sorted_map sorted_wrt_iff_nth_less)
  show ?case
    using Cons head same later by (auto simp: sorted_append)
qed

text \<open>
  C2: for every collection of videos, a listing with no query, no owner filter and no
  sort parameters answers a page whose documents are stored videos with the published
  flag set, in descending order of creation time.
\<close>

theorem getAllVideos_default:
  "\<exists>pg. getAllVideos e page limit None None None None w =
           Inr (ApiResponse 200 pg ''Videos fetched successfully'')
       \<and> (\<forall>d \<in> set (docs pg). fst d \<in> set (videos w) \<and> isPublished (fst d))
       \<and> sorted_wrt (\<lambda>a b. createdAt (fst a) \<ge> createdAt (fst b)) (docs pg)"
proof -
  let ?s4 = "sort_key (\<lambda>v. - createdAt v) (filter isPublished (videos w))"
  let ?s5 = "concat (map (lookup_ownerDetails (users w)) ?s4)"
  let ?pg = "aggregatePaginate ?s5 page limit"
  have run: "getAllVideos e page limit None None None None w =
      Inr (ApiResponse 200 ?pg ''Videos fetched successfully'')"
    by (simp add: getAllVideos_def truthy_def)
  obtain l k where dk: "docs ?pg = take l (drop k ?s5)"
    by (simp add: aggregatePaginate_def Let_def)
  have sub: "set (docs ?pg) \<subseteq> set ?s5"
    unfolding dk by (meson set_take_subset set_drop_subset subset_trans)
  have pub: "\<forall>d \<in> set (docs ?pg). fst d \<in> set (videos w) \<and> isPublished (fst d)"
  proof
    fix d assume "d \<in> set (docs ?pg)"
    then have "d \<in> set ?s5" using sub by blast
    then have "fst d \<in> set ?s4" by (rule unwind_fst)
    then show "fst d \<in> set (videos w) \<and> isPublished (fst d)" by simp
  qed
  have "sorted (map (\<lambda>v. - createdAt v) ?s4)" by simp
  then have "sorted (map (\<lambda>d. - createdAt (fst d)) ?s5)" by (rule unwind_sorted)
  then have "sorted_wrt (\<lambda>a b. createdAt (fst a) \<ge> createdAt (fst b)) ?s5"
    by (simp add: sorted_map)
  then have ord: "sorted_wrt (\<lambda>a b. createdAt (fst a) \<ge> createdAt (fst b)) (docs ?pg)"
    unfolding dk by simp
  show ?thesis using run pub ord by blast
qed

lemma feed_listing:
  "getAllVideos example_env None None None None None None feed_world =
     Inr (ApiResponse 200
       \<lparr>docs = [(late_video, alice_details), (clip_video, alice_details)],
        totalDocs = 2, limit_of = 10, page_of = 1\<rparr>
       ''Videos fetched successfully'')"
  by (simp add: getAllVideos_def truthy_def aggregatePaginate_def lookup_ownerDetails_def
      feed_world_def example_world_def draft_video_def late_video_def clip_video_def
      alice_user_def bob_user_def alice_details_def ids_distinct)

theorem getAllVideos_default_witness:
  "getAllVideos example_env None None None None None None feed_world =
     Inr (ApiResponse 200
       \<lparr>docs = [(late_video, alice_details), (clip_video, alice_details)],
        totalDocs = 2, limit_of = 10, page_of = 1\<rparr>
       ''Videos fetched successfully'')
   \<and> videos feed_world = [clip_video, draft_video, late_video]
   \<and> \<not> isPublished draft_video
   \<and> isPublished late_video \<and> isPublished clip_video
   \<and> createdAt late_video \<ge> createdAt clip_video"
proof -
  obtain pg where pg:
    "getAllVideos example_env None None None None None None feed_world =
       Inr (ApiResponse 200 pg ''Videos fetched successfully'')"
    "\<forall>d \<in> set (docs pg). fst d \<in> set (videos feed_world) \<and> isPublished (fst d)"
    "sorted_wrt (\<lambda>a b. createdAt (fst a) \<ge> createdAt (fst b)) (docs pg)"
    using getAllVideos_default [of example_env None None feed_world] by blast
  from pg(1) have d: "docs pg = [(late_video, alice_details), (clip_video, alice_details)]"
    by (auto simp: feed_listing)
  from pg(2) have p: "isPublished late_video \<and> isPublished clip_video"
    by (simp add: d)
  from pg(3) have s: "createdAt late_video \<ge> createdAt clip_video"
    by (simp add: d)
  have v: "videos feed_world = [clip_video, draft_video, late_video]"
    by (simp add: feed_world_def)
  have n: "\<not> isPublished draft_video" by (simp add: draft_video_def)
  show ?thesis using feed_listing p s v n by simp
qed

section \<open>Publish: blank and absent fields\<close>

text \<open>A title or description that is there and trims to the empty string is refused.\<close>

lemma publishAVideo_blank:
  "blank ttl \<or> blank descr \<Longrightarrow>
   publishAVideo e caller ttl descr files w =
     (Inl (ApiError 400 ''All fields are required''), w)"
  by (simp add: publishAVideo_def)

text \<open>
  C7 fails on the code for an absent field: \<^verbatim>\<open>field?.trim() === ""\<close> is false for
  \<^verbatim>\<open>undefined\<close>, so a request with no title passes the test the message
  \<^verbatim>\<open>All fields are required\<close> belongs to. Both assets are uploaded before the schema
  refuses the record; under a schema that requires nothing the record is created with
  no title.
\<close>

theorem publishAVideo_absent_title_uploads:
  "publishAVideo example_env (Some alice) None (Some (js ''D'')) (Some two_files)
     example_world =
     (Inl ValidationError,
      example_world\<lparr>assets := [js ''v1'', js ''t1'', js ''id/v.mp4'', js ''id/t.png''],
        events := [Upload (js ''v.mp4''), Upload (js ''t.png'')]\<rparr>)
   \<and> fst (publishAVideo lax_env (Some alice) None (Some (js ''D'')) (Some two_files)
        example_world) =
     Inr (ApiResponse 200
        \<lparr>video_id = late, title = None, description = Some (js ''D''), duration = 12,
         videoFile = \<lparr>url = Some (js ''cdn/v.mp4''), public_id = js ''id/v.mp4''\<rparr>,
         thumbnail = \<lparr>url = Some (js ''cdn/t.png''), public_id = js ''id/t.png''\<rparr>,
         owner = Some alice, views = 0, isPublished = True, createdAt = 200\<rparr>
        ''Video Published Successfully'')"
  by (simp add: publishAVideo_def blank_def trim_def isWhiteSpace_def first_path_def
      truthy_def the_string_def uploadOnCloudinary_def Video_create_def Video_findById_def
      two_files_def example_env_def lax_env_def example_world_def clip_video_def js_def
      ids_distinct late_def clip_def)

section \<open>Get a video: views and watch-history\<close>

lemma fetch_step:
  assumes "isValidObjectId videoId"
    and "Video_findById (ObjectId videoId) w = Some v"
    and "User_findById (Some c) w = Some u"
  shows "fst (getVideoById (Some c) videoId w) =
           Inr (ApiResponse 200
             (video_aggregate (Some c) (ObjectId videoId) w,
              watchHistory u @ [ObjectId videoId]) ''Video Fetched successfully'')"
    and "Video_findById (ObjectId videoId) (snd (getVideoById (Some c) videoId w)) =
           Some (v\<lparr>views := views v + 1\<rparr>)"
    and "User_findById (Some c) (snd (getVideoById (Some c) videoId w)) =
           Some (u\<lparr>watchHistory := watchHistory u @ [ObjectId videoId]\<rparr>)"
proof -
  let ?i = "ObjectId videoId"
  let ?w1 = "snd (Video_findByIdAndUpdate ?i (\<lambda>v. v\<lparr>views := views v + 1\<rparr>) w)"
  let ?u' = "u\<lparr>watchHistory := watchHistory u @ [?i]\<rparr>"
  have uid: "user_id u = c"
    using assms(3) by (auto simp: User_findById_def dest: find_Some_holds)
  have u1: "User_findById (Some c) ?w1 = Some u"
    using assms(3) by (simp add: User_findById_def Video_findByIdAndUpdate_def Let_def)
  have run: "getVideoById (Some c) videoId w =
      (Inr (ApiResponse 200 (video_aggregate (Some c) ?i w, watchHistory ?u')
         ''Video Fetched successfully''), User_save ?u' ?w1)"
    using assms(1) u1 by (simp add: getVideoById_def array_truthy_def Let_def)
  show "fst (getVideoById (Some c) videoId w) =
           Inr (ApiResponse 200
             (video_aggregate (Some c) (ObjectId videoId) w,
              watchHistory u @ [ObjectId videoId]) ''Video Fetched successfully'')"
    by (simp add: run)
  show "Video_findById ?i (snd (getVideoById (Some c) videoId w)) =
           Some (v\<lparr>views := views v + 1\<rparr>)"
    using assms(2)
    by (simp add: run User_save_def Video_findByIdAndUpdate_def Let_def Video_findById_def
        find_update_first)
  show "User_findById (Some c) (snd (getVideoById (Some c) videoId w)) = Some ?u'"
    using assms(3) uid
    by (simp add: run User_save_def Video_findByIdAndUpdate_def Let_def User_findById_def
        find_update_first)
qed

lemma fetch_times_accounting:
  assumes "isValidObjectId videoId"
  shows "Video_findById (ObjectId videoId) w = Some v \<Longrightarrow>
         User_findById (Some c) w = Some u \<Longrightarrow>
         Video_findById (ObjectId videoId) (fetch_times n (Some c) videoId w) =
           Some (v\<lparr>views := views v + n\<rparr>)
       \<and> User_findById (Some c) (fetch_times n (Some c) videoId w) =
           Some (u\<lparr>watchHistory := watchHistory u @ replicate n (ObjectId videoId)\<rparr>)"
proof (induction n arbitrary: w v u)
  case 0
  then show ?case by simp
next
  case (Suc n)
  let ?w' = "snd (getVideoById (Some c) videoId w)"
  have v': "Video_findById (ObjectId videoId) ?w' = Some (v\<lparr>views := views v + 1\<rparr>)"
    using assms Suc.prems by (rule fetch_step(2))
  have u': "User_findById (Some c) ?w' =
      Some (u\<lparr>watchHistory := watchHistory u @ [ObjectId videoId]\<rparr>)"
    using assms Suc.prems by (rule fetch_step(3))
  show ?case
    using Suc.IH [OF v' u'] by (simp add: replicate_app_Cons_same)
qed

text \<open>
  C1: for every call of \<open>getVideoById\<close> by a stored user with a well-formed identifier
  of a stored video, the call succeeds, the video's view counter grows by exactly 1
  and the caller's watch-history by exactly one entry, the video's identifier, at its
  end; after \<open>n\<close> calls in a row the counter has grown by \<open>n\<close> and the history by \<open>n\<close>
  copies of the identifier.
\<close>

theorem getVideoById_accounting:
  assumes "isValidObjectId videoId"
    and "Video_findById (ObjectId videoId) w = Some v"
    and "User_findById (Some c) w = Some u"
  shows "fst (getVideoById (Some c) videoId w) =
           Inr (ApiResponse 200
             (video_aggregate (Some c) (ObjectId videoId) w,
              watchHistory u @ [ObjectId videoId]) ''Video Fetched successfully'')
       \<and> Video_findById (ObjectId videoId) (snd (getVideoById (Some c) videoId w)) =
           Some (v\<lparr>views := views v + 1\<rparr>)
       \<and> User_findById (Some c) (snd (getVideoById (Some c) videoId w)) =
           Some (u\<lparr>watchHistory := watchHistory u @ [ObjectId videoId]\<rparr>)
       \<and> Video_findById (ObjectId videoId) (fetch_times n (Some c) videoId w) =
           Some (v\<lparr>views := views v + n\<rparr>)
       \<and> User_findById (Some c) (fetch_times n (Some c) videoId w) =
           Some (u\<lparr>watchHistory := watchHistory u @ replicate n (ObjectId videoId)\<rparr>)"
  using fetch_step [OF assms] fetch_times_accounting [OF assms] by simp

theorem getVideoById_accounting_witness:
  "isValidObjectId clip
   \<and> Video_findById (ObjectId clip) example_world = Some clip_video
   \<and> User_findById (Some bob) example_world = Some bob_user
   \<and> map_option views (Video_findById (ObjectId clip)
        (snd (getVideoById (Some bob) clip example_world))) = Some 1
   \<and> map_option watchHistory (User_findById (Some bob)
        (snd (getVideoById (Some bob) clip example_world))) =
       Some [clip, ghost, clip, clip]
   \<and> map_option views (Video_findById (ObjectId clip)
        (fetch_times 3 (Some bob) clip example_world)) = Some 3
   \<and> map_option watchHistory (User_findById (Some bob)
        (fetch_times 3 (Some bob) clip example_world)) =
       Some [clip, ghost, clip, clip, clip, clip]"
proof -
  have v: "views clip_video = 0" by (simp add: clip_video_def)
  have h: "watchHistory bob_user = [clip, ghost, clip]" by (simp add: bob_user_def)
  have r: "replicate 3 clip = [clip, clip, clip]" by (simp add: numeral_3_eq_3)
  show ?thesis
    using getVideoById_accounting [OF ids_valid(3) clip_found bob_found, of 3]
      ids_valid(3) clip_found bob_found v h r
    by (simp add: ids_cast)
qed

section \<open>Get a video: the caller's like and subscription\<close>

lemma lookup_owner_membership:
  "ow \<in> set (lookup_owner caller w v) \<Longrightarrow>
   isSubscribed ow =
     (\<exists>s \<in> set (subscriptions w). channel s = ov_id ow \<and> caller = Some (subscriber s))"
  by (auto simp: lookup_owner_def Let_def)

lemma aggregate_owner:
  "x \<in> set (video_aggregate caller i w) \<Longrightarrow> vv_owner x = Some ow \<Longrightarrow>
   \<exists>v. ow \<in> set (lookup_owner caller w v)"
  by (auto simp: video_aggregate_def Let_def split: list.splits) (metis list.set_intros(1))

lemma aggregate_isLiked:
  "x \<in> set (video_aggregate caller i w) \<Longrightarrow>
   isLiked x = (\<exists>l \<in> set (likes w). like_video l = vv_id x \<and> caller = Some (likedBy l))"
  by (auto simp: video_aggregate_def Let_def)

text \<open>
  C8: the video a successful \<open>getVideoById\<close> answers is the aggregation's; in every
  video of the aggregation \<open>isLiked\<close> says whether the caller's identifier is the
  liking user of a like of that video, and \<open>isSubscribed\<close> whether it is the
  subscriber of a subscription to the owner's channel; for an absent caller both are
  false in every video.
\<close>

theorem getVideoById_membership:
  "(getVideoById caller videoId w = (Inr (ApiResponse code (vd, history) msg), w') \<longrightarrow>
      vd = video_aggregate caller (ObjectId videoId) w)
   \<and> (\<forall>x \<in> set (video_aggregate caller i w).
        isLiked x =
          (\<exists>l \<in> set (likes w). like_video l = vv_id x \<and> caller = Some (likedBy l))
      \<and> (\<forall>ow. vv_owner x = Some ow \<longrightarrow>
           isSubscribed ow =
             (\<exists>s \<in> set (subscriptions w).
                channel s = ov_id ow \<and> caller = Some (subscriber s))))
   \<and> (\<forall>x \<in> set (video_aggregate None i w).
        \<not> isLiked x \<and> (\<forall>ow. vv_owner x = Some ow \<longrightarrow> \<not> isSubscribed ow))"
proof (intro conjI impI ballI allI)
  assume "getVideoById caller videoId w = (Inr (ApiResponse code (vd, history) msg), w')"
  then show "vd = video_aggregate caller (ObjectId videoId) w"
    by (auto simp: getVideoById_def Let_def split: if_splits option.splits)
next
  fix x assume "x \<in> set (video_aggregate caller i w)"
  then show "isLiked x =
      (\<exists>l \<in> set (likes w). like_video l = vv_id x \<and> caller = Some (likedBy l))"
    by (rule aggregate_isLiked)
next
  fix x ow assume "x \<in> set (video_aggregate caller i w)" "vv_owner x = Some ow"
  then obtain v where "ow \<in> set (lookup_owner caller w v)"
    using aggregate_owner by blast
  then show "isSubscribed ow =
      (\<exists>s \<in> set (subscriptions w). channel s = ov_id ow \<and> caller = Some (subscriber s))"
    by (rule lookup_owner_membership)
next
  fix x assume "x \<in> set (video_aggregate None i w)"
  then show "\<not> isLiked x" by (simp add: aggregate_isLiked)
next
  fix x ow assume "x \<in> set (video_aggregate None i w)" "vv_owner x = Some ow"
  then obtain v where "ow \<in> set (lookup_owner None w v)"
    using aggregate_owner by blast
  then show "\<not> isSubscribed ow" by (simp add: lookup_owner_membership)
qed

lemma clip_view:
  "video_aggregate caller clip example_world =
     [\<lparr>vv_id = clip, vv_videoFile = videoFile clip_video, vv_title = Some (js ''T''),
       vv_description = Some (js ''D''), vv_views = 0, vv_createdAt = 100,
       vv_isPublished = True, vv_duration = 12,
       vv_owner = Some \<lparr>ov_id = alice, ov_username = js ''alice'', ov_avatar = js ''cdn/a'',
                         subscribersCount = 1, isSubscribed = (caller = Some bob)\<rparr>,
       likesCount = 1, isLiked = (caller = Some bob)\<rparr>]"
  by (simp add: video_aggregate_def lookup_owner_def Let_def example_world_def
      clip_video_def alice_user_def bob_user_def ids_distinct)

theorem getVideoById_membership_witness:
  "fst (getVideoById (Some bob) clip example_world) =
     Inr (ApiResponse 200
       (video_aggregate (Some bob) clip example_world, [clip, ghost, clip, clip])
       ''Video Fetched successfully'')
   \<and> likes example_world = [\<lparr>like_video = clip, likedBy = bob\<rparr>]
   \<and> subscriptions example_world = [\<lparr>channel = alice, subscriber = bob\<rparr>]
   \<and> map isLiked (video_aggregate (Some bob) clip example_world) = [True]
   \<and> map (\<lambda>x. map_option isSubscribed (vv_owner x))
       (video_aggregate (Some bob) clip example_world) = [Some True]
   \<and> map isLiked (video_aggregate (Some alice) clip example_world) = [False]
   \<and> map (\<lambda>x. map_option isSubscribed (vv_owner x))
       (video_aggregate (Some alice) clip example_world) = [Some False]
   \<and> map isLiked (video_aggregate None clip example_world) = [False]
   \<and> map (\<lambda>x. map_option isSubscribed (vv_owner x))
       (video_aggregate None clip example_world) = [Some False]"
proof -
  have run: "fst (getVideoById (Some bob) clip example_world) =
     Inr (ApiResponse 200
       (video_aggregate (Some bob) clip example_world, [clip, ghost, clip, clip])
       ''Video Fetched successfully'')"
    using ids_valid(3)
    by (simp add: getVideoById_def array_truthy_def Video_findByIdAndUpdate_def
        User_findById_def Let_def ids_cast ids_distinct example_world_def alice_user_def
        bob_user_def)
  have absent: "\<forall>x \<in> set (video_aggregate None clip example_world).
      \<not> isLiked x \<and> (\<forall>ow. vv_owner x = Some ow \<longrightarrow> \<not> isSubscribed ow)"
    using getVideoById_membership [of None clip example_world 200 "[]" "[]" "[]" example_world clip]
    by blast
  have none: "map isLiked (video_aggregate None clip example_world) = [False]
    \<and> map (\<lambda>x. map_option isSubscribed (vv_owner x))
       (video_aggregate None clip example_world) = [Some False]"
    using absent by (simp add: clip_view)
  have some: "map isLiked (video_aggregate (Some bob) clip example_world) = [True]
    \<and> map (\<lambda>x. map_option isSubscribed (vv_owner x))
       (video_aggregate (Some bob) clip example_world) = [Some True]
    \<and> map isLiked (video_aggregate (Some alice) clip example_world) = [False]
    \<and> map (\<lambda>x. map_option isSubscribed (vv_owner x))
       (video_aggregate (Some alice) clip example_world) = [Some False]"
    by (simp add: clip_view ids_distinct)
  have joined: "likes example_world = [\<lparr>like_video = clip, likedBy = bob\<rparr>]
    \<and> subscriptions example_world = [\<lparr>channel = alice, subscriber = bob\<rparr>]"
    by (simp add: example_world_def)
  show ?thesis
    using run none some joined by blast
qed

section \<open>Update a video: the thumbnail\<close>

text \<open>
  With a new thumbnail the handler uploads it, deletes the previous asset and only
  then writes the record.
\<close>

lemma updateVideo_thumbnail_events:
  assumes "isValidObjectId videoId"
    and "Video_findById (ObjectId videoId) w = Some v"
    and "owner v = Some c"
    and "path \<noteq> []"
    and "cloud_upload e (events w) path = Some r"
  shows "events (snd (updateVideo e (Some c) videoId ttl descr (Some path) w)) =
           events w @ [Upload path, AssetDelete (public_id (thumbnail v)),
                       VideoUpdate (ObjectId videoId)]"
  using assms
  by (simp add: updateVideo_def not_owner_def truthy_def the_string_def write_video_def
      uploadOnCloudinary_def deleteFromCloudinary_def Video_findByIdAndUpdate_def
      Video_findById_def Let_def find_update_first set_fields_def)

text \<open>
  C4 fails on the code: in the update of Alice's video with a new thumbnail the
  deletion of the previous asset \<open>t1\<close> is issued before the write of the record,
  whereas \<open>deleteVideo\<close> deletes the assets only after the record is confirmed
  deleted.
\<close>

theorem updateVideo_deletes_before_write:
  "updateVideo example_env (Some alice) clip None None (Some (js ''n.png'')) example_world =
     (Inr (ApiResponse 200
        (clip_video\<lparr>thumbnail :=
           \<lparr>url = Some (js ''cdn/n.png''), public_id = js ''id/n.png''\<rparr>\<rparr>)
        ''Video content updated successfully''),
      example_world\<lparr>videos := [clip_video\<lparr>thumbnail :=
           \<lparr>url = Some (js ''cdn/n.png''), public_id = js ''id/n.png''\<rparr>\<rparr>],
        assets := [js ''v1'', js ''id/n.png''],
        events := [Upload (js ''n.png''), AssetDelete (js ''t1''), VideoUpdate clip]\<rparr>)"
  using ids_valid(3) clip_found
  by (simp add: updateVideo_def not_owner_def truthy_def the_string_def write_video_def
      set_fields_def uploadOnCloudinary_def deleteFromCloudinary_def
      Video_findByIdAndUpdate_def Video_findById_def Let_def ids_cast
      example_world_def example_env_def clip_video_def js_def)

text \<open>
  Without a new thumbnail the stored title and description stay when they are not
  supplied, and the thumbnail keeps its store identifier but is written with no URL.
\<close>

lemma updateVideo_without_thumbnail:
  assumes "isValidObjectId videoId"
    and "Video_findById (ObjectId videoId) w = Some v"
    and "owner v = Some c"
    and "truthy ttl \<or> truthy descr"
  shows "Video_findById (ObjectId videoId)
           (snd (updateVideo e (Some c) videoId ttl descr None w)) =
         Some (v\<lparr>title := (case ttl of None \<Rightarrow> title v | Some t \<Rightarrow> Some t),
                 description := (case descr of None \<Rightarrow> description v | Some d \<Rightarrow> Some d),
                 thumbnail := \<lparr>url = None, public_id = public_id (thumbnail v)\<rparr>\<rparr>)"
  using assms
  by (auto simp: updateVideo_def not_owner_def truthy_def write_video_def
      Video_findByIdAndUpdate_def Video_findById_def Let_def find_update_first set_fields_def)

text \<open>
  C5 fails on the code for the thumbnail: an update of the title alone writes the
  thumbnail of Alice's video back without its URL, against the source's comment that
  the old url will be set again.
\<close>

theorem updateVideo_title_only_loses_thumbnail_url:
  "map_option thumbnail (Video_findById (ObjectId clip) example_world) =
     Some \<lparr>url = Some (js ''cdn/t1''), public_id = js ''t1''\<rparr>
   \<and> fst (updateVideo example_env (Some alice) clip (Some (js ''New'')) None None
        example_world) =
     Inr (ApiResponse 200
        (clip_video\<lparr>title := Some (js ''New''),
           thumbnail := \<lparr>url = None, public_id = js ''t1''\<rparr>\<rparr>)
        ''Video content updated successfully'')
   \<and> map_option thumbnail (Video_findById (ObjectId clip)
        (snd (updateVideo example_env (Some alice) clip (Some (js ''New'')) None None
           example_world))) =
     Some \<lparr>url = None, public_id = js ''t1''\<rparr>"
  using ids_valid(3) clip_found
  by (simp add: updateVideo_def not_owner_def truthy_def write_video_def
      set_fields_def Video_findByIdAndUpdate_def Video_findById_def Let_def ids_cast
      example_world_def clip_video_def js_def)

section \<open>Delete a video\<close>

text \<open>
  A deletion by the owner answers the deleted record and leaves the identifier in no
  watch-history; with identifiers that are unique in the collection, no record of
  that identifier is left. A fetch never fails with the not-found error.
\<close>

lemma deleteVideo_removes:
  assumes "isValidObjectId videoId"
    and "Video_findById (ObjectId videoId) w = Some v"
    and "owner v = Some c"
  shows "fst (deleteVideo (Some c) videoId w) =
           Inr (ApiResponse 200 v ''Video Deleted successfully'')"
    and "\<forall>u \<in> set (users (snd (deleteVideo (Some c) videoId w))).
           ObjectId videoId \<notin> set (watchHistory u)"
    and "distinct (map video_id (videos w)) \<Longrightarrow>
           Video_findById (ObjectId videoId) (snd (deleteVideo (Some c) videoId w)) = None"
proof -
  let ?i = "ObjectId videoId"
  let ?w2 = "snd (Video_findByIdAndDelete ?i (User_pull_watchHistory ?i w))"
  have run: "deleteVideo (Some c) videoId w =
      (Inr (ApiResponse 200 v ''Video Deleted successfully''),
       deleteFromCloudinary (public_id (thumbnail v))
         (deleteFromCloudinary (public_id (videoFile v)) ?w2))"
    using assms
    by (simp add: deleteVideo_def not_owner_def Video_findByIdAndDelete_def
        User_pull_watchHistory_def Video_findById_def)
  show "fst (deleteVideo (Some c) videoId w) =
           Inr (ApiResponse 200 v ''Video Deleted successfully'')"
    by (simp add: run)
  show "\<forall>u \<in> set (users (snd (deleteVideo (Some c) videoId w))).
           ?i \<notin> set (watchHistory u)"
    by (auto simp: run deleteFromCloudinary_def Video_findByIdAndDelete_def
        User_pull_watchHistory_def)
  show "Video_findById ?i (snd (deleteVideo (Some c) videoId w)) = None"
    if "distinct (map video_id (videos w))"
    using that
    by (simp add: run deleteFromCloudinary_def Video_findByIdAndDelete_def
        User_pull_watchHistory_def Video_findById_def find_delete_first_distinct)
qed

lemma getVideoById_never_not_found:
  "fst (getVideoById caller videoId w) \<noteq> Inl (ApiError 404 ''No video found'')"
  by (simp add: getVideoById_def array_truthy_def Let_def split: option.splits)

lemma delete_clip:
  "deleteVideo (Some alice) clip example_world =
     (Inr (ApiResponse 200 clip_video ''Video Deleted successfully''),
      example_world\<lparr>videos := [],
        users := [alice_user, bob_user\<lparr>watchHistory := [ghost]\<rparr>],
        assets := [],
        events := [UsersPull clip, VideoDelete clip, AssetDelete (js ''v1''),
                   AssetDelete (js ''t1'')]\<rparr>)"
  using ids_valid(3) clip_found
  by (simp add: deleteVideo_def not_owner_def Video_findByIdAndDelete_def
      User_pull_watchHistory_def deleteFromCloudinary_def Video_findById_def ids_cast
      ids_distinct example_world_def alice_user_def bob_user_def clip_video_def js_def)

lemma fetch_after_delete:
  "getVideoById (Some bob) clip
     (example_world\<lparr>videos := [],
        users := [alice_user, bob_user\<lparr>watchHistory := [ghost]\<rparr>],
        assets := [],
        events := [UsersPull clip, VideoDelete clip, AssetDelete (js ''v1''),
                   AssetDelete (js ''t1'')]\<rparr>) =
     (Inr (ApiResponse 200 ([], [ghost, clip]) ''Video Fetched successfully''),
      example_world\<lparr>videos := [],
        users := [alice_user, bob_user\<lparr>watchHistory := [ghost, clip]\<rparr>],
        assets := [],
        events := [UsersPull clip, VideoDelete clip, AssetDelete (js ''v1''),
                   AssetDelete (js ''t1''), VideoUpdate clip, UserSave bob]\<rparr>)"
  using ids_valid(3)
  by (simp add: getVideoById_def array_truthy_def video_aggregate_def
      Video_findByIdAndUpdate_def User_findById_def User_save_def Video_findById_def
      Let_def ids_cast ids_distinct example_world_def alice_user_def bob_user_def)

text \<open>
  C3 fails on the code in its last part: after Alice deletes her video, and it is gone
  from the collection and from Bob's watch-history, a fetch of the same identifier by
  Bob does not fail with \<^verbatim>\<open>No video found\<close>. The test \<^verbatim>\<open>!video\<close> is on an array, so
  the fetch answers 200 with no video and puts the identifier back into Bob's
  watch-history.
\<close>

theorem deleted_video_fetch_succeeds:
  "fst (deleteVideo (Some alice) clip example_world) =
     Inr (ApiResponse 200 clip_video ''Video Deleted successfully'')
   \<and> Video_findById (ObjectId clip) (snd (deleteVideo (Some alice) clip example_world)) = None
   \<and> map watchHistory (users (snd (deleteVideo (Some alice) clip example_world))) =
       [[], [ghost]]
   \<and> fst (getVideoById (Some bob) clip (snd (deleteVideo (Some alice) clip example_world))) =
       Inr (ApiResponse 200 ([], [ghost, clip]) ''Video Fetched successfully'')
   \<and> map watchHistory (users (snd (getVideoById (Some bob) clip
        (snd (deleteVideo (Some alice) clip example_world))))) = [[], [ghost, clip]]"
  unfolding delete_clip snd_conv fst_conv fetch_after_delete
  by (simp add: Video_findById_def alice_user_def bob_user_def)

section \<open>Ownership\<close>

text \<open>
  C6: for every video and every caller whose identity differs from the video's owner
  (an absent caller too), \<open>updateVideo\<close>, \<open>deleteVideo\<close> and \<open>togglePublishStatus\<close> fail
  with their ownership error, and the stores are left as they were.
\<close>

theorem non_owner_forbidden:
  assumes "isValidObjectId videoId"
    and "Video_findById (ObjectId videoId) w = Some v"
    and "owner v = Some ow"
    and "caller \<noteq> Some ow"
  shows "updateVideo e caller videoId ttl descr path w =
           (Inl (ApiError 400 ''Only Owners can edit video''), w)
       \<and> deleteVideo caller videoId w =
           (Inl (ApiError 400 ''You can't delete video as you are not owner of this video''), w)
       \<and> togglePublishStatus caller videoId w =
           (Inl (ApiError 400
              ''You can't toggle publish status as you are not owner of this video''), w)"
proof -
  have "not_owner (Some v) caller = Inr True"
    using assms(3,4) by (auto simp: not_owner_def)
  then show ?thesis
    using assms(1,2)
    by (simp add: updateVideo_def deleteVideo_def togglePublishStatus_def)
qed

theorem non_owner_forbidden_witness:
  "isValidObjectId clip
   \<and> Video_findById (ObjectId clip) example_world = Some clip_video
   \<and> owner clip_video = Some alice \<and> Some bob \<noteq> Some alice
   \<and> updateVideo example_env (Some bob) clip (Some (js ''X'')) None None example_world =
       (Inl (ApiError 400 ''Only Owners can edit video''), example_world)
   \<and> deleteVideo (Some bob) clip example_world =
       (Inl (ApiError 400 ''You can't delete video as you are not owner of this video''),
        example_world)
   \<and> togglePublishStatus (Some bob) clip example_world =
       (Inl (ApiError 400
          ''You can't toggle publish status as you are not owner of this video''),
        example_world)"
proof -
  have h1: "isValidObjectId clip" by (rule ids_valid)
  have h2: "Video_findById (ObjectId clip) example_world = Some clip_video"
    by (rule clip_found)
  have h3: "owner clip_video = Some alice" by (simp add: clip_video_def)
  have h4: "Some bob \<noteq> Some alice" by (simp add: ids_distinct)
  show ?thesis
    using non_owner_forbidden [OF h1 h2 h3 h4, of example_env "Some (js ''X'')" None None]
      h1 h2 h3 h4
    by simp
qed

text \<open>
  With a caller present, a well-formed identifier that matches no stored video makes
  \<open>updateVideo\<close> and \<open>deleteVideo\<close> fail with their ownership error rather than with
  a not-found one, and the stores are left as they were.
\<close>

lemma absent_video_forbidden:
  assumes "isValidObjectId videoId"
    and "Video_findById (ObjectId videoId) w = None"
  shows "updateVideo e (Some c) videoId ttl descr path w =
           (Inl (ApiError 400 ''Only Owners can edit video''), w)
       \<and> deleteVideo (Some c) videoId w =
           (Inl (ApiError 400 ''You can't delete video as you are not owner of this video''), w)"
  using assms by (simp add: updateVideo_def deleteVideo_def not_owner_def)

lemma absent_video_forbidden_example:
  "isValidObjectId ghost \<and> Video_findById (ObjectId ghost) example_world = None
   \<and> updateVideo example_env (Some bob) ghost (Some (js ''X'')) None None example_world =
       (Inl (ApiError 400 ''Only Owners can edit video''), example_world)
   \<and> deleteVideo (Some bob) ghost example_world =
       (Inl (ApiError 400 ''You can't delete video as you are not owner of this video''),
        example_world)"
  using absent_video_forbidden
      [OF ids_valid(4) ghost_absent, of example_env bob "Some (js ''X'')" None None]
    ids_valid(4) ghost_absent
  by simp

text \<open>
  C10 fails on the code for an absent caller: the owner-only guard compares
  \<^verbatim>\<open>undefined\<close> with \<^verbatim>\<open>undefined\<close> and lets the request through. \<open>deleteVideo\<close> then
  prunes the identifier from Bob's watch-history before it fails with another error,
  and \<open>updateVideo\<close> fails with a TypeError, whereas \<open>togglePublishStatus\<close>, which
  tests for the record first, refuses the same request and changes nothing.
\<close>

theorem absent_video_absent_caller_passes_guard:
  "isValidObjectId ghost \<and> Video_findById (ObjectId ghost) example_world = None
   \<and> deleteVideo None ghost example_world =
       (Inl (ApiError 400 ''Failed to delete video please try again''),
        example_world\<lparr>users := [alice_user, bob_user\<lparr>watchHistory := [clip, clip]\<rparr>],
                      events := [UsersPull ghost, VideoDelete ghost]\<rparr>)
   \<and> example_world\<lparr>users := [alice_user, bob_user\<lparr>watchHistory := [clip, clip]\<rparr>],
                      events := [UsersPull ghost, VideoDelete ghost]\<rparr> \<noteq> example_world
   \<and> updateVideo example_env None ghost (Some (js ''X'')) None None example_world =
       (Inl TypeError, example_world)
   \<and> togglePublishStatus None ghost example_world =
       (Inl (ApiError 401 ''Video not found''), example_world)"
proof -
  have d: "deleteVideo None ghost example_world =
       (Inl (ApiError 400 ''Failed to delete video please try again''),
        example_world\<lparr>users := [alice_user, bob_user\<lparr>watchHistory := [clip, clip]\<rparr>],
                      events := [UsersPull ghost, VideoDelete ghost]\<rparr>)"
    using ids_valid(4) ghost_absent
    by (simp add: deleteVideo_def not_owner_def Video_findByIdAndDelete_def
        User_pull_watchHistory_def Video_findById_def ids_cast ids_distinct
        example_world_def alice_user_def bob_user_def clip_video_def)
  have n: "example_world\<lparr>users := [alice_user, bob_user\<lparr>watchHistory := [clip, clip]\<rparr>],
                      events := [UsersPull ghost, VideoDelete ghost]\<rparr> \<noteq> example_world"
    by (simp add: example_world_def)
  have u: "updateVideo example_env None ghost (Some (js ''X'')) None None example_world =
       (Inl TypeError, example_world)"
    using ids_valid(4) ghost_absent
    by (simp add: updateVideo_def not_owner_def truthy_def js_def)
  have t: "togglePublishStatus None ghost example_world =
       (Inl (ApiError 401 ''Video not found''), example_world)"
    using ids_valid(4) ghost_absent by (simp add: togglePublishStatus_def)
  show ?thesis using d n u t ids_valid(4) ghost_absent by simp
qed

section \<open>Publish status\<close>

lemma toggle_step:
  assumes "isValidObjectId videoId"
    and "Video_findById (ObjectId videoId) w = Some v"
    and "owner v = Some c"
  shows "togglePublishStatus (Some c) videoId w =
     (Inr (ApiResponse 200 (\<not> isPublished v) ''Video Status toggled successfully''),
      w\<lparr>videos := update_first (\<lambda>x. video_id x = ObjectId videoId)
                     (\<lambda>x. x\<lparr>isPublished := \<not> isPublished v\<rparr>) (videos w),
        events := events w @ [VideoUpdate (ObjectId videoId)]\<rparr>)"
proof -
  have "find (\<lambda>x. video_id x = ObjectId videoId)
          (update_first (\<lambda>x. video_id x = ObjectId videoId)
             (\<lambda>x. x\<lparr>isPublished := \<not> isPublished v\<rparr>) (videos w))
        = Some (v\<lparr>isPublished := \<not> isPublished v\<rparr>)"
    using assms(2) by (simp add: find_update_first Video_findById_def)
  then show ?thesis
    using assms
    by (simp add: togglePublishStatus_def not_owner_def Video_findByIdAndUpdate_def
        Video_findById_def Let_def)
qed

text \<open>
  C9: for every existing video owned by the caller, each call of
  \<open>togglePublishStatus\<close> answers the new value of the published flag, and after two
  calls in a row the video, and the whole collection, is as it was.
\<close>

theorem togglePublishStatus_twice:
  assumes "isValidObjectId videoId"
    and "Video_findById (ObjectId videoId) w = Some v"
    and "owner v = Some c"
  shows "fst (togglePublishStatus (Some c) videoId w) =
           Inr (ApiResponse 200 (\<not> isPublished v) ''Video Status toggled successfully'')
       \<and> Video_findById (ObjectId videoId) (snd (togglePublishStatus (Some c) videoId w)) =
           Some (v\<lparr>isPublished := \<not> isPublished v\<rparr>)
       \<and> fst (togglePublishStatus (Some c) videoId
                (snd (togglePublishStatus (Some c) videoId w))) =
           Inr (ApiResponse 200 (isPublished v) ''Video Status toggled successfully'')
       \<and> Video_findById (ObjectId videoId)
           (snd (togglePublishStatus (Some c) videoId
                  (snd (togglePublishStatus (Some c) videoId w)))) = Some v
       \<and> videos (snd (togglePublishStatus (Some c) videoId
                (snd (togglePublishStatus (Some c) videoId w)))) = videos w"
proof -
  let ?i = "ObjectId videoId"
  let ?p = "\<lambda>x. video_id x = ?i"
  let ?v1 = "v\<lparr>isPublished := \<not> isPublished v\<rparr>"
  let ?w1 = "w\<lparr>videos := update_first ?p (\<lambda>x. x\<lparr>isPublished := \<not> isPublished v\<rparr>) (videos w),
        events := events w @ [VideoUpdate ?i]\<rparr>"
  have s1: "togglePublishStatus (Some c) videoId w =
     (Inr (ApiResponse 200 (\<not> isPublished v) ''Video Status toggled successfully''), ?w1)"
    using assms by (rule toggle_step)
  have f1: "Video_findById ?i ?w1 = Some ?v1"
    using assms(2) by (simp add: find_update_first Video_findById_def)
  have o1: "owner ?v1 = Some c" using assms(3) by simp
  have s2: "togglePublishStatus (Some c) videoId ?w1 =
     (Inr (ApiResponse 200 (\<not> isPublished ?v1) ''Video Status toggled successfully''),
      ?w1\<lparr>videos := update_first ?p (\<lambda>x. x\<lparr>isPublished := \<not> isPublished ?v1\<rparr>) (videos ?w1),
        events := events ?w1 @ [VideoUpdate ?i]\<rparr>)"
    using assms(1) f1 o1 by (rule toggle_step)
  have restored:
    "update_first ?p (\<lambda>x. x\<lparr>isPublished := \<not> isPublished ?v1\<rparr>) (videos ?w1) = videos w"
  proof -
    have "update_first ?p (\<lambda>x. x\<lparr>isPublished := \<not> isPublished ?v1\<rparr>) (videos ?w1)
        = update_first ?p (\<lambda>x. x\<lparr>isPublished := isPublished v\<rparr>) (videos w)"
      by (simp add: update_first_twice)
    also have "\<dots> = videos w"
      using assms(2) by (intro update_first_same[where v=v]) (simp_all add: Video_findById_def)
    finally show ?thesis .
  qed
  show ?thesis
    using restored f1 assms(2) by (simp add: s1 s2 Video_findById_def)
qed

theorem togglePublishStatus_twice_witness:
  "isValidObjectId clip
   \<and> Video_findById (ObjectId clip) example_world = Some clip_video
   \<and> owner clip_video = Some alice
   \<and> fst (togglePublishStatus (Some alice) clip example_world) =
       Inr (ApiResponse 200 False ''Video Status toggled successfully'')
   \<and> fst (togglePublishStatus (Some alice) clip
            (snd (togglePublishStatus (Some alice) clip example_world))) =
       Inr (ApiResponse 200 True ''Video Status toggled successfully'')
   \<and> videos (snd (togglePublishStatus (Some alice) clip
            (snd (togglePublishStatus (Some alice) clip example_world)))) =
       videos example_world"
proof -
  have h1: "isValidObjectId clip" by (rule ids_valid)
  have h3: "owner clip_video = Some alice" by (simp add: clip_video_def)
  have p: "isPublished clip_video" by (simp add: clip_video_def)
  show ?thesis
    using togglePublishStatus_twice [OF h1 clip_found h3] h1 clip_found h3 p
    by simp
qed

end
